theory Spec2Isabelle
  imports Complex_Main "HOL-Library.Multiset"
begin

section \<open>Data model\<close>

text \<open>
  The engine reads two columns of a pandas DataFrame: the variant column and the metric
  column. A dataset is the list of its rows, in the frame's row order, projected to
  these two columns. Every row bears a variant label; a metric cell may be null
  (\<open>None\<close> stands for pandas' NaN / missing value). Numeric values (float64 in
  the source) are idealised as reals: rounding, infinities and NaN results of the numeric
  library are outside the model.
\<close>

record 'v row =
  variant :: 'v
  metric :: "real option"

text \<open>The class \<open>SmartABTester\<close>: its only attribute is the significance threshold.\<close>

record SmartABTester =
  alpha :: real

text \<open>The dictionary returned by \<open>check_srm\<close>.\<close>

record srm_result =
  chi2 :: real
  pvalue :: real
  srm_detected :: bool

section \<open>pandas and numpy operations used by the engine\<close>

text \<open>
  \<open>Series.unique()\<close>: the distinct values in order of first appearance.
\<close>

fun unique :: "'a list \<Rightarrow> 'a list" where
  "unique [] = []"
| "unique (x # xs) = x # unique (filter (\<lambda>y. y \<noteq> x) xs)"

text \<open>
  The number of rows of each distinct value, listed in order of first appearance: what
  \<open>value_counts\<close> holds before it sorts.
\<close>

definition label_counts :: "'a list \<Rightarrow> nat list" where
  "label_counts xs = map (count_list xs) (unique xs)"

text \<open>
  \<open>Series.value_counts().values\<close>: \<open>value_counts\<close> sorts the distinct values by
  descending count; \<open>.values\<close> keeps the counts only, so the order among values of
  equal count does not show.
\<close>

definition value_counts_values :: "'a list \<Rightarrow> nat list" where
  "value_counts_values xs = rev (sort (label_counts xs))"

text \<open>
  \<open>np.mean\<close>. On the empty array numpy gives NaN; the engine then repeats that value
  zero times, so the value chosen here for the empty list is never used.
\<close>

definition mean :: "real list \<Rightarrow> real" where
  "mean xs = sum_list xs / real (length xs)"

text \<open>\<open>Series.dropna().values\<close> on a metric column.\<close>

definition dropna :: "real option list \<Rightarrow> real list" where
  "dropna cells = [x. Some x \<leftarrow> cells]"

section \<open>The sample ratio mismatch check\<close>

text \<open>
  \<open>check_srm\<close>. The chi-square distribution function \<open>stats.chi2.cdf(x, df=k)\<close> of
  scipy is a parameter \<open>cdf\<close>; it returns a number for every argument and never raises.
\<close>

definition check_srm ::
  "SmartABTester \<Rightarrow> (real \<Rightarrow> int \<Rightarrow> real) \<Rightarrow> 'v row list \<Rightarrow> srm_result" where
  "check_srm self cdf df =
     (let counts = map real (value_counts_values (map variant df));
          expected = replicate (length counts) (mean counts);
          chi2 = sum_list (map2 (\<lambda>c e. (c - e)\<^sup>2 / e) counts expected);
          pvalue = 1 - cdf chi2 (int (length counts) - 1)
      in \<lparr>chi2 = chi2, pvalue = pvalue, srm_detected = pvalue < alpha self\<rparr>)"

text \<open>
  Pearson's statistic as the specification words it: over the distinct variant values,
  the squared deviation of the observed count from the mean of the observed counts,
  divided by that mean.
\<close>

definition pearson_chi2 :: "'v list \<Rightarrow> real" where
  "pearson_chi2 xs =
     (let m = (\<Sum>v\<in>set xs. real (count_list xs v)) / real (card (set xs))
      in \<Sum>v\<in>set xs. (real (count_list xs v) - m)\<^sup>2 / m)"

section \<open>Library calls, exceptions and the random generator\<close>

text \<open>
  A Python exception is a value: \<open>IndexError\<close> is what numpy raises when an array is
  indexed out of bounds, \<open>LibraryError\<close> stands for whatever a statistical routine of
  scipy or statsmodels raises.
\<close>

datatype error = IndexError | LibraryError string

text \<open>
  The statistical routines belong to numpy, scipy and statsmodels, not to the engine.
  They are parameters of the model, each with the keyword arguments the engine passes:
  \<open>np.random.choice(data, size, replace=...)\<close> reads and advances the global generator
  (of type \<open>'g\<close>); \<open>shapiro\<close>, \<open>proportions_ztest\<close>, \<open>stats.ttest_ind(a, b,
  equal_var=...)\<close> and \<open>stats.mannwhitneyu(a, b, alternative=...)\<close> return a pair
  (statistic, p-value) or raise.
\<close>

record 'g stats_lib =
  chi2_cdf :: "real \<Rightarrow> int \<Rightarrow> real"
  random_choice :: "'g \<Rightarrow> real list \<Rightarrow> nat \<Rightarrow> bool \<Rightarrow> (error + real list) \<times> 'g"
  shapiro :: "real list \<Rightarrow> error + real \<times> real"
  proportions_ztest :: "real list \<Rightarrow> nat list \<Rightarrow> error + real \<times> real"
  ttest_ind :: "real list \<Rightarrow> real list \<Rightarrow> bool \<Rightarrow> error + real \<times> real"
  mannwhitneyu :: "real list \<Rightarrow> real list \<Rightarrow> string \<Rightarrow> error + real \<times> real"

text \<open>
  Every call of a sampling or testing routine is an observable event, recorded with its
  arguments in the order the engine passes them.
\<close>

datatype call =
    RandomChoice "real list" nat bool
  | Shapiro "real list"
  | ProportionsZtest "real list" "nat list"
  | TtestInd "real list" "real list" bool
  | MannWhitneyU "real list" "real list" string

text \<open>The state a method runs in: the global random generator and the calls made so far.\<close>

record 'g world =
  rng :: 'g
  calls :: "call list"

type_synonym ('a, 'g) prog = "'g world \<Rightarrow> (error + 'a) \<times> 'g world"

definition pure_m :: "'a \<Rightarrow> ('a, 'g) prog" where
  "pure_m x = (\<lambda>w. (Inr x, w))"

definition raise_m :: "error \<Rightarrow> ('a, 'g) prog" where
  "raise_m e = (\<lambda>w. (Inl e, w))"

text \<open>Sequencing: an exception of the first computation skips the second.\<close>

definition bind_m :: "('a, 'g) prog \<Rightarrow> ('a \<Rightarrow> ('b, 'g) prog) \<Rightarrow> ('b, 'g) prog" where
  "bind_m m f = (\<lambda>w. case m w of (Inl e, w') \<Rightarrow> (Inl e, w') | (Inr x, w') \<Rightarrow> f x w')"

text \<open>A call of a routine that does not touch the generator.\<close>

definition lib_call :: "call \<Rightarrow> error + 'a \<Rightarrow> ('a, 'g) prog" where
  "lib_call c r = (\<lambda>w. (r, w\<lparr>calls := calls w @ [c]\<rparr>))"

definition call_random_choice ::
  "'g stats_lib \<Rightarrow> real list \<Rightarrow> nat \<Rightarrow> bool \<Rightarrow> (real list, 'g) prog" where
  "call_random_choice L data k repl =
     (\<lambda>w. case random_choice L (rng w) data k repl of
             (r, g) \<Rightarrow> (r, w\<lparr>rng := g, calls := calls w @ [RandomChoice data k repl]\<rparr>))"

text \<open>\<open>a[i]\<close> on a numpy array, for an index that is not negative.\<close>

definition index :: "'a list \<Rightarrow> nat \<Rightarrow> ('a, 'g) prog" where
  "index xs i = (if i < length xs then pure_m (xs ! i) else raise_m IndexError)"

section \<open>The normality check and the three tests\<close>

text \<open>The dictionary a test method returns.\<close>

record test_result =
  test :: string
  statistic :: real
  pvalue :: real
  significant :: bool

text \<open>\<open>_check_normality\<close>.\<close>

definition check_normality :: "SmartABTester \<Rightarrow> 'g stats_lib \<Rightarrow> real list \<Rightarrow> (bool, 'g) prog" where
  "check_normality self L data =
     bind_m (if length data > 5000 then call_random_choice L data 5000 False else pure_m data)
       (\<lambda>data'. bind_m (lib_call (Shapiro data') (shapiro L data'))
         (\<lambda>(stat, pvalue). pure_m (pvalue > alpha self)))"

definition proportion_test ::
  "SmartABTester \<Rightarrow> 'g stats_lib \<Rightarrow> real list \<Rightarrow> real list \<Rightarrow> (test_result, 'g) prog" where
  "proportion_test self L control treatment =
     (let successes = [sum_list treatment, sum_list control];
          nobs = [length treatment, length control]
      in bind_m (lib_call (ProportionsZtest successes nobs) (proportions_ztest L successes nobs))
           (\<lambda>(stat, pvalue). pure_m
              \<lparr>test = ''Proportion Z-Test'', statistic = stat, pvalue = pvalue,
               significant = pvalue < alpha self\<rparr>))"

definition two_sample_ttest ::
  "SmartABTester \<Rightarrow> 'g stats_lib \<Rightarrow> real list \<Rightarrow> real list \<Rightarrow> (test_result, 'g) prog" where
  "two_sample_ttest self L control treatment =
     bind_m (lib_call (TtestInd treatment control False) (ttest_ind L treatment control False))
       (\<lambda>(stat, pvalue). pure_m
          \<lparr>test = ''Two Sample T-Test'', statistic = stat, pvalue = pvalue,
           significant = pvalue < alpha self\<rparr>)"

definition mann_whitney_u_test ::
  "SmartABTester \<Rightarrow> 'g stats_lib \<Rightarrow> real list \<Rightarrow> real list \<Rightarrow> (test_result, 'g) prog" where
  "mann_whitney_u_test self L control treatment =
     bind_m (lib_call (MannWhitneyU treatment control ''two-sided'')
               (mannwhitneyu L treatment control ''two-sided''))
       (\<lambda>(stat, pvalue). pure_m
          \<lparr>test = ''Mann-Whitney U'', statistic = stat, pvalue = pvalue,
           significant = pvalue < alpha self\<rparr>)"

section \<open>The decision engine\<close>

text \<open>
  The verdict: the dictionary of the test that ran, with the keys \<open>metric_type\<close> and
  \<open>srm\<close> that \<open>analyze_test\<close> adds to it.
\<close>

record verdict = test_result +
  metric_type :: string
  srm :: srm_result

text \<open>
  \<open>df[df[variant_col] == v][metric_col].dropna().values\<close>: the non-null metric values
  of the rows of variant \<open>v\<close>, in row order.
\<close>

definition arm :: "'v row list \<Rightarrow> 'v \<Rightarrow> real list" where
  "arm df v = dropna (map metric (filter (\<lambda>r. variant r = v) df))"

text \<open>
  \<open>analyze_test\<close>. Each branch yields the test's dictionary and the metric type it is
  tagged with; the last step adds the result of the sample ratio check.
\<close>

definition analyze_test :: "SmartABTester \<Rightarrow> 'g stats_lib \<Rightarrow> 'v row list \<Rightarrow> (verdict, 'g) prog" where
  "analyze_test self L df =
     (let srm_result = check_srm self (chi2_cdf L) df;
          variants = unique (map variant df)
      in bind_m (index variants 0) (\<lambda>v0.
         let control = arm df v0
         in bind_m (index variants 1) (\<lambda>v1.
         let treatment = arm df v1;
             unique_vals = set (unique (dropna (map metric df)))
         in bind_m
              (if unique_vals \<subseteq> {0, 1} then
                 bind_m (proportion_test self L control treatment)
                   (\<lambda>result. pure_m (result, ''binary''))
               else
                 bind_m (check_normality self L control) (\<lambda>is_normal_control.
                 bind_m (check_normality self L treatment) (\<lambda>is_normal_treatment.
                   if is_normal_control \<and> is_normal_treatment then
                     bind_m (two_sample_ttest self L control treatment)
                       (\<lambda>result. pure_m (result, ''continuous_normal''))
                   else
                     bind_m (mann_whitney_u_test self L control treatment)
                       (\<lambda>result. pure_m (result, ''continuous_non_normal'')))))
              (\<lambda>(result, mtype). pure_m
                 (test_result.extend result \<lparr>metric_type = mtype, srm = srm_result\<rparr>)))))"

section \<open>Concrete inputs\<close>

text \<open>
  An engine with the default threshold, a library whose routines never raise (the
  sampler takes the first \<open>k\<close> values and steps a counter; every test reports
  statistic 0 and p-value 1), an initial state, and a few small datasets.
\<close>

definition tester0 :: SmartABTester where
  "tester0 = \<lparr>alpha = 5 / 100\<rparr>"

definition lib0 :: "nat stats_lib" where
  "lib0 = \<lparr>chi2_cdf = (\<lambda>x k. 0),
           random_choice = (\<lambda>g data k repl. (Inr (take k data), Suc g)),
           shapiro = (\<lambda>d. Inr (0, 1)),
           proportions_ztest = (\<lambda>s n. Inr (0, 1)),
           ttest_ind = (\<lambda>a b eq. Inr (0, 1)),
           mannwhitneyu = (\<lambda>a b alt. Inr (0, 1))\<rparr>"

text \<open>
  Three libraries that differ from \<open>lib0\<close> in one routine each: Shapiro-Wilk reports
  p-value 1 on a sample whose sum exceeds 3 and p-value 0 on any other; Shapiro-Wilk
  raises on every sample; the three tests report as statistic the sum of their first
  argument minus the sum of their second.
\<close>

definition lib_mixed :: "nat stats_lib" where
  "lib_mixed = lib0\<lparr>shapiro := (\<lambda>d. Inr (0, if 3 < sum_list d then 1 else 0))\<rparr>"

definition lib_shapiro_raises :: "nat stats_lib" where
  "lib_shapiro_raises = lib0\<lparr>shapiro := (\<lambda>d. Inl (LibraryError ''shapiro''))\<rparr>"

definition lib_diff :: "nat stats_lib" where
  "lib_diff = lib0\<lparr>proportions_ztest := (\<lambda>s n. Inr (hd s - last s, 1)),
                   ttest_ind := (\<lambda>a b eq. Inr (sum_list a - sum_list b, 1)),
                   mannwhitneyu := (\<lambda>a b alt. Inr (sum_list a - sum_list b, 1))\<rparr>"

definition world0 :: "nat world" where
  "world0 = \<lparr>rng = 0, calls = []\<rparr>"

text \<open>Two variants, one binary observation each.\<close>

definition df_binary :: "string row list" where
  "df_binary = [\<lparr>variant = ''A'', metric = Some 1\<rparr>, \<lparr>variant = ''B'', metric = Some 0\<rparr>]"

text \<open>Two variants, a metric that is not binary; one cell is null.\<close>

definition df_continuous :: "string row list" where
  "df_continuous =
     [\<lparr>variant = ''A'', metric = Some (3 / 2)\<rparr>, \<lparr>variant = ''B'', metric = Some (5 / 2)\<rparr>,
      \<lparr>variant = ''B'', metric = None\<rparr>, \<lparr>variant = ''A'', metric = Some 4\<rparr>]"

text \<open>A single variant.\<close>

definition df_single :: "string row list" where
  "df_single = [\<lparr>variant = ''A'', metric = Some 1\<rparr>, \<lparr>variant = ''A'', metric = Some 0\<rparr>]"

text \<open>
  Three variants: the rows of \<open>A\<close> and \<open>B\<close> hold only 0 and 1, a row of the third
  variant \<open>C\<close> holds 5/2.
\<close>

definition df_three :: "string row list" where
  "df_three =
     [\<lparr>variant = ''A'', metric = Some 1\<rparr>, \<lparr>variant = ''B'', metric = Some 0\<rparr>,
      \<lparr>variant = ''C'', metric = Some (5 / 2)\<rparr>, \<lparr>variant = ''B'', metric = Some 1\<rparr>]"

text \<open>The same assignment counts, 1 and 2, met in the two possible orders.\<close>

definition df_ab :: "string row list" where
  "df_ab = [\<lparr>variant = ''A'', metric = Some 1\<rparr>, \<lparr>variant = ''B'', metric = Some 0\<rparr>,
            \<lparr>variant = ''B'', metric = Some 1\<rparr>]"

definition df_ba :: "string row list" where
  "df_ba = [\<lparr>variant = ''B'', metric = Some 0\<rparr>, \<lparr>variant = ''B'', metric = Some 1\<rparr>,
            \<lparr>variant = ''A'', metric = Some 1\<rparr>]"

section \<open>Sequencing and the pandas operations\<close>

lemma bind_pure [simp]: "bind_m (pure_m x) f = f x"
  by (simp add: bind_m_def pure_m_def)

lemma bind_raise [simp]: "bind_m (raise_m e) f = raise_m e"
  by (simp add: bind_m_def raise_m_def)

lemma bind_m_assoc: "bind_m (bind_m m f) g = bind_m m (\<lambda>x. bind_m (f x) g)"
  by (auto simp: bind_m_def fun_eq_iff split: prod.splits sum.splits)

lemma bind_m_Inr:
  "bind_m m f w = (Inr y, w') \<longleftrightarrow> (\<exists>x w1. m w = (Inr x, w1) \<and> f x w1 = (Inr y, w'))"
  by (auto simp: bind_m_def split: prod.splits sum.splits)

lemma set_unique [simp]: "set (unique xs) = set xs"
  by (induction xs rule: unique.induct) auto

lemma distinct_unique [simp]: "distinct (unique xs)"
  by (induction xs rule: unique.induct) auto

lemma length_unique: "length (unique xs) = card (set xs)"
  using distinct_card [of "unique xs"] by simp

text \<open>The three test methods: one library call, treatment first.\<close>

lemma proportion_test_run:
  "proportion_test self L c t w =
     (case proportions_ztest L [sum_list t, sum_list c] [length t, length c] of
        Inl e \<Rightarrow> Inl e
      | Inr (st, p) \<Rightarrow> Inr \<lparr>test = ''Proportion Z-Test'', statistic = st, pvalue = p,
                            significant = p < alpha self\<rparr>,
      w\<lparr>calls := calls w @ [ProportionsZtest [sum_list t, sum_list c] [length t, length c]]\<rparr>)"
  by (simp add: proportion_test_def Let_def bind_m_def lib_call_def pure_m_def
           split: sum.splits prod.splits)

lemma two_sample_ttest_run:
  "two_sample_ttest self L c t w =
     (case ttest_ind L t c False of
        Inl e \<Rightarrow> Inl e
      | Inr (st, p) \<Rightarrow> Inr \<lparr>test = ''Two Sample T-Test'', statistic = st, pvalue = p,
                            significant = p < alpha self\<rparr>,
      w\<lparr>calls := calls w @ [TtestInd t c False]\<rparr>)"
  by (simp add: two_sample_ttest_def bind_m_def lib_call_def pure_m_def
           split: sum.splits prod.splits)

lemma mann_whitney_u_test_run:
  "mann_whitney_u_test self L c t w =
     (case mannwhitneyu L t c ''two-sided'' of
        Inl e \<Rightarrow> Inl e
      | Inr (st, p) \<Rightarrow> Inr \<lparr>test = ''Mann-Whitney U'', statistic = st, pvalue = p,
                            significant = p < alpha self\<rparr>,
      w\<lparr>calls := calls w @ [MannWhitneyU t c ''two-sided'']\<rparr>)"
  by (simp add: mann_whitney_u_test_def bind_m_def lib_call_def pure_m_def
           split: sum.splits prod.splits)

lemma check_normality_small:
  assumes "length data \<le> 5000"
  shows "check_normality self L data w =
     (case shapiro L data of Inl e \<Rightarrow> Inl e | Inr (st, p) \<Rightarrow> Inr (alpha self < p),
      w\<lparr>calls := calls w @ [Shapiro data]\<rparr>)"
  using assms
  by (simp add: check_normality_def bind_m_def lib_call_def pure_m_def
           split: sum.splits prod.splits)

lemma check_normality_large:
  assumes "5000 < length data"
    and "random_choice L (rng w) data 5000 False = (Inr d, g)"
  shows "check_normality self L data w =
     (case shapiro L d of Inl e \<Rightarrow> Inl e | Inr (st, p) \<Rightarrow> Inr (alpha self < p),
      w\<lparr>rng := g, calls := calls w @ [RandomChoice data 5000 False, Shapiro d]\<rparr>)"
  using assms
  by (simp add: check_normality_def bind_m_def lib_call_def call_random_choice_def pure_m_def
           split: sum.splits prod.splits)

lemma check_normality_large_raise:
  assumes "5000 < length data"
    and "random_choice L (rng w) data 5000 False = (Inl e, g)"
  shows "check_normality self L data w =
     (Inl e, w\<lparr>rng := g, calls := calls w @ [RandomChoice data 5000 False]\<rparr>)"
  using assms
  by (simp add: check_normality_def bind_m_def lib_call_def call_random_choice_def pure_m_def
           split: sum.splits prod.splits)

lemma analyze_test_few:
  assumes "length (unique (map variant df)) < 2"
  shows "analyze_test self L df w = (Inl IndexError, w)"
  using assms
  by (cases "unique (map variant df)")
     (auto simp: analyze_test_def Let_def index_def raise_m_def bind_m_def pure_m_def)

lemma analyze_test_binary:
  assumes "unique (map variant df) = v0 # v1 # vs"
    and "set (dropna (map metric df)) \<subseteq> {0, 1}"
  shows "analyze_test self L df w =
     (case proportions_ztest L [sum_list (arm df v1), sum_list (arm df v0)]
                               [length (arm df v1), length (arm df v0)] of
        Inl e \<Rightarrow> Inl e
      | Inr (st, p) \<Rightarrow> Inr \<lparr>test = ''Proportion Z-Test'', statistic = st, pvalue = p,
                            significant = p < alpha self, metric_type = ''binary'',
                            srm = check_srm self (chi2_cdf L) df\<rparr>,
      w\<lparr>calls := calls w @ [ProportionsZtest [sum_list (arm df v1), sum_list (arm df v0)]
                                              [length (arm df v1), length (arm df v0)]]\<rparr>)"
  using assms
  by (simp add: analyze_test_def Let_def index_def bind_m_assoc)
     (simp add: bind_m_def proportion_test_run pure_m_def test_result.defs
           split: sum.splits prod.splits)

lemma analyze_test_continuous:
  assumes "unique (map variant df) = v0 # v1 # vs"
    and "\<not> set (dropna (map metric df)) \<subseteq> {0, 1}"
    and "check_normality self L (arm df v0) w = (Inr nc, w1)"
    and "check_normality self L (arm df v1) w1 = (Inr nt, w2)"
  shows "analyze_test self L df w =
     (if nc \<and> nt then
        (case ttest_ind L (arm df v1) (arm df v0) False of
           Inl e \<Rightarrow> Inl e
         | Inr (st, p) \<Rightarrow> Inr \<lparr>test = ''Two Sample T-Test'', statistic = st, pvalue = p,
                               significant = p < alpha self,
                               metric_type = ''continuous_normal'',
                               srm = check_srm self (chi2_cdf L) df\<rparr>,
         w2\<lparr>calls := calls w2 @ [TtestInd (arm df v1) (arm df v0) False]\<rparr>)
      else
        (case mannwhitneyu L (arm df v1) (arm df v0) ''two-sided'' of
           Inl e \<Rightarrow> Inl e
         | Inr (st, p) \<Rightarrow> Inr \<lparr>test = ''Mann-Whitney U'', statistic = st, pvalue = p,
                               significant = p < alpha self,
                               metric_type = ''continuous_non_normal'',
                               srm = check_srm self (chi2_cdf L) df\<rparr>,
         w2\<lparr>calls := calls w2 @ [MannWhitneyU (arm df v1) (arm df v0) ''two-sided'']\<rparr>))"
  using assms
  by (simp add: analyze_test_def Let_def index_def bind_m_assoc)
     (simp add: bind_m_def two_sample_ttest_run mann_whitney_u_test_run pure_m_def
                test_result.defs split: sum.splits prod.splits)

section \<open>Facts about the sample ratio mismatch check\<close>

lemma map2_replicate:
  "length ys = n \<Longrightarrow> map2 f ys (replicate n e) = map (\<lambda>c. f c e) ys"
  by (induction ys arbitrary: n) auto

lemma sum_list_mset_cong: "mset xs = mset ys \<Longrightarrow> sum_list (xs :: real list) = sum_list ys"
  by (metis sum_mset_sum_list)

lemma mset_value_counts: "mset (value_counts_values xs) = mset (label_counts xs)"
  by (simp add: value_counts_values_def)

lemma length_value_counts: "length (value_counts_values xs) = card (set xs)"
  by (simp add: value_counts_values_def label_counts_def length_unique)

lemma sum_list_value_counts:
  "sum_list (map f (value_counts_values xs)) = (\<Sum>v\<in>set xs. (f (count_list xs v) :: real))"
proof -
  have "mset (map f (value_counts_values xs)) = mset (map f (label_counts xs))"
    by (simp add: mset_value_counts)
  then have "sum_list (map f (value_counts_values xs)) = sum_list (map f (label_counts xs))"
    by (rule sum_list_mset_cong)
  also have "\<dots> = sum_list (map (\<lambda>v. f (count_list xs v)) (unique xs))"
    by (simp add: label_counts_def comp_def)
  also have "\<dots> = (\<Sum>v\<in>set (unique xs). f (count_list xs v))"
    by (rule sum_list_distinct_conv_sum_set) simp
  finally show ?thesis by simp
qed

lemma chi2_check_srm: "chi2 (check_srm self cdf df) = pearson_chi2 (map variant df)"
proof -
  let ?xs = "map variant df"
  let ?cs = "map real (value_counts_values ?xs)"
  have m: "mean ?cs = (\<Sum>v\<in>set ?xs. real (count_list ?xs v)) / real (card (set ?xs))"
    using sum_list_value_counts [of real ?xs]
    by (simp add: mean_def length_value_counts)
  have "chi2 (check_srm self cdf df) = sum_list (map (\<lambda>c. (c - mean ?cs)\<^sup>2 / mean ?cs) ?cs)"
    by (simp add: check_srm_def Let_def map2_replicate)
  also have "\<dots> = sum_list (map (\<lambda>n. (real n - mean ?cs)\<^sup>2 / mean ?cs) (value_counts_values ?xs))"
    by (simp add: comp_def)
  also have "\<dots> = (\<Sum>v\<in>set ?xs. (real (count_list ?xs v) - mean ?cs)\<^sup>2 / mean ?cs)"
    by (rule sum_list_value_counts)
  finally show ?thesis
    by (simp add: pearson_chi2_def Let_def m)
qed

lemma pvalue_check_srm:
  "srm_result.pvalue (check_srm self cdf df)
     = 1 - cdf (chi2 (check_srm self cdf df)) (int (card (variant ` set df)) - 1)"
  using length_value_counts [of "map variant df"]
  by (simp add: check_srm_def Let_def)

lemma srm_detected_check_srm:
  "srm_detected (check_srm self cdf df) = (srm_result.pvalue (check_srm self cdf df) < alpha self)"
  by (simp add: check_srm_def Let_def)

lemma value_counts_cong:
  "mset (label_counts xs) = mset (label_counts ys) \<Longrightarrow> value_counts_values xs = value_counts_values ys"
  by (simp add: value_counts_values_def properties_for_sort)

lemma check_srm_cong:
  "value_counts_values (map variant df) = value_counts_values (map variant df')
   \<Longrightarrow> check_srm self cdf df = check_srm self cdf df'"
  by (simp add: check_srm_def)

lemma mset_unique: "mset (unique xs) = mset_set (set xs)"
  using mset_set_set [of "unique xs"] by simp

lemma label_counts_perm:
  assumes "mset xs = mset ys"
  shows "mset (label_counts xs) = mset (label_counts ys)"
proof -
  have c: "count_list xs = count_list ys"
    using assms by (metis count_mset fun_eq_iff) 
  have s: "set xs = set ys"
    using assms by (rule mset_eq_setD)
  have "mset (label_counts xs) = image_mset (count_list xs) (mset (unique xs))"
    by (simp add: label_counts_def)
  also have "\<dots> = image_mset (count_list ys) (mset (unique ys))"
    by (simp add: mset_unique c s)
  finally show ?thesis by (simp add: label_counts_def)
qed

lemma unique_map_inj: "inj f \<Longrightarrow> unique (map f xs) = map f (unique xs)"
proof (induction xs rule: unique.induct)
  case 1
  then show ?case by simp
next
  case (2 x xs)
  have "filter (\<lambda>y. y \<noteq> f x) (map f xs) = map f (filter (\<lambda>y. y \<noteq> x) xs)"
    using \<open>inj f\<close> by (simp add: filter_map comp_def inj_eq)
  then show ?case using 2 by simp
qed

lemma count_list_map_inj: "inj f \<Longrightarrow> count_list (map f xs) (f v) = count_list xs v"
  by (induction xs) (auto simp: inj_eq)

lemma label_counts_relabel: "inj f \<Longrightarrow> label_counts (map f xs) = label_counts xs"
  by (simp add: label_counts_def unique_map_inj count_list_map_inj comp_def)

section \<open>Outcomes of the normality check and of the engine\<close>

lemma analyze_test_normality_raises_control:
  assumes "unique (map variant df) = v0 # v1 # vs"
    and "\<not> set (dropna (map metric df)) \<subseteq> {0, 1}"
    and "check_normality self L (arm df v0) w = (Inl e, w1)"
  shows "analyze_test self L df w = (Inl e, w1)"
  using assms
  by (simp add: analyze_test_def Let_def index_def bind_m_assoc) (simp add: bind_m_def)

lemma analyze_test_normality_raises_treatment:
  assumes "unique (map variant df) = v0 # v1 # vs"
    and "\<not> set (dropna (map metric df)) \<subseteq> {0, 1}"
    and "check_normality self L (arm df v0) w = (Inr nc, w1)"
    and "check_normality self L (arm df v1) w1 = (Inl e, w2)"
  shows "analyze_test self L df w = (Inl e, w2)"
  using assms
  by (simp add: analyze_test_def Let_def index_def bind_m_assoc) (simp add: bind_m_def)

lemma analyze_test_srm:
  assumes "analyze_test self L df w = (Inr v, w')"
  shows "srm v = check_srm self (chi2_cdf L) df"
  using assms
  by (auto simp: analyze_test_def Let_def bind_m_Inr pure_m_def test_result.defs)

lemma analyze_test_run:
  assumes u: "unique (map variant df) = v0 # v1 # vs"
  shows "analyze_test self L df w =
     (if set (dropna (map metric df)) \<subseteq> {0, 1} then
        (case proportions_ztest L [sum_list (arm df v1), sum_list (arm df v0)]
                                  [length (arm df v1), length (arm df v0)] of
           Inl e \<Rightarrow> Inl e
         | Inr (st, p) \<Rightarrow> Inr \<lparr>test = ''Proportion Z-Test'', statistic = st, pvalue = p,
                               significant = p < alpha self, metric_type = ''binary'',
                               srm = check_srm self (chi2_cdf L) df\<rparr>,
         w\<lparr>calls := calls w @ [ProportionsZtest [sum_list (arm df v1), sum_list (arm df v0)]
                                                 [length (arm df v1), length (arm df v0)]]\<rparr>)
      else
        (case check_normality self L (arm df v0) w of
           (Inl e, w1) \<Rightarrow> (Inl e, w1)
         | (Inr nc, w1) \<Rightarrow>
             (case check_normality self L (arm df v1) w1 of
                (Inl e, w2) \<Rightarrow> (Inl e, w2)
              | (Inr nt, w2) \<Rightarrow>
                  (if nc \<and> nt then
                     (case ttest_ind L (arm df v1) (arm df v0) False of
                        Inl e \<Rightarrow> Inl e
                      | Inr (st, p) \<Rightarrow>
                          Inr \<lparr>test = ''Two Sample T-Test'', statistic = st, pvalue = p,
                               significant = p < alpha self,
                               metric_type = ''continuous_normal'',
                               srm = check_srm self (chi2_cdf L) df\<rparr>,
                      w2\<lparr>calls := calls w2 @ [TtestInd (arm df v1) (arm df v0) False]\<rparr>)
                   else
                     (case mannwhitneyu L (arm df v1) (arm df v0) ''two-sided'' of
                        Inl e \<Rightarrow> Inl e
                      | Inr (st, p) \<Rightarrow>
                          Inr \<lparr>test = ''Mann-Whitney U'', statistic = st, pvalue = p,
                               significant = p < alpha self,
                               metric_type = ''continuous_non_normal'',
                               srm = check_srm self (chi2_cdf L) df\<rparr>,
                      w2\<lparr>calls := calls w2
                                 @ [MannWhitneyU (arm df v1) (arm df v0) ''two-sided'']\<rparr>)))))"
proof (cases "set (dropna (map metric df)) \<subseteq> {0, 1}")
  case True
  then show ?thesis
    by (simp add: analyze_test_binary [OF u True])
next
  case False
  obtain r1 w1 where c: "check_normality self L (arm df v0) w = (r1, w1)"
    by (cases "check_normality self L (arm df v0) w")
  show ?thesis
  proof (cases r1)
    case (Inl e)
    then show ?thesis
      using False c analyze_test_normality_raises_control [OF u False, of self L w e w1]
      by simp
  next
    case (Inr nc)
    obtain r2 w2 where t: "check_normality self L (arm df v1) w1 = (r2, w2)"
      by (cases "check_normality self L (arm df v1) w1")
    show ?thesis
    proof (cases r2)
      case (Inl e)
      then show ?thesis
        using False c t Inr
          analyze_test_normality_raises_treatment [OF u False, of self L w nc w1 e w2]
        by simp
    next
      case nt: (Inr nt)
      show ?thesis
        using False c t Inr nt
          analyze_test_continuous [OF u False, of self L w nc w1 nt w2]
        by simp
    qed
  qed
qed

lemma check_normality_error:
  assumes "check_normality self L data w = (Inl e, w1)"
  shows "if 5000 < length data then
           (case random_choice L (rng w) data 5000 False of
              (Inl e', g) \<Rightarrow> e' = e
            | (Inr sample, g) \<Rightarrow> shapiro L sample = Inl e)
         else shapiro L data = Inl e"
proof (cases "5000 < length data")
  case False
  then show ?thesis
    using assms by (auto simp: check_normality_small split: sum.splits)
next
  case True
  obtain r g where rc: "random_choice L (rng w) data 5000 False = (r, g)"
    by (cases "random_choice L (rng w) data 5000 False")
  show ?thesis
  proof (cases r)
    case (Inl e')
    then show ?thesis
      using True rc assms by (simp add: check_normality_large_raise)
  next
    case (Inr sample)
    then show ?thesis
      using True rc assms by (auto simp: check_normality_large split: sum.splits)
  qed
qed

lemma analyze_test_tag:
  assumes "analyze_test self L df w = (Inr v, w')"
  shows "metric_type v = ''binary'' \<or> metric_type v = ''continuous_normal''
         \<or> metric_type v = ''continuous_non_normal''"
  using assms
  by (auto simp: analyze_test_def Let_def bind_m_Inr pure_m_def test_result.defs
           split: if_splits)

section \<open>The concrete inputs evaluated\<close>

lemma df_continuous_variants: "unique (map variant df_continuous) = [''A'', ''B'']"
  by (simp add: df_continuous_def)

lemma df_continuous_not_binary: "\<not> set (dropna (map metric df_continuous)) \<subseteq> {0, 1}"
  by (simp add: df_continuous_def dropna_def)

lemma df_continuous_arms:
  "arm df_continuous ''A'' = [3 / 2, 4]" "arm df_continuous ''B'' = [5 / 2]"
  by (simp_all add: df_continuous_def arm_def dropna_def)

lemma check_srm_df_binary:
  "check_srm tester0 (chi2_cdf lib0) df_binary = \<lparr>chi2 = 0, pvalue = 1, srm_detected = False\<rparr>"
  by (simp add: check_srm_def Let_def value_counts_values_def label_counts_def mean_def
                df_binary_def lib0_def tester0_def)

lemma check_srm_df_continuous:
  "check_srm tester0 cdf df_continuous
     = \<lparr>chi2 = 0, pvalue = 1 - cdf 0 1, srm_detected = 1 - cdf 0 1 < 5 / 100\<rparr>"
  by (simp add: check_srm_def Let_def value_counts_values_def label_counts_def mean_def
                df_continuous_def tester0_def)

lemma check_srm_df_three:
  "check_srm tester0 cdf df_three
     = \<lparr>chi2 = 1 / 2, pvalue = 1 - cdf (1 / 2) 2, srm_detected = 1 - cdf (1 / 2) 2 < 5 / 100\<rparr>"
  by (simp add: check_srm_def Let_def value_counts_values_def label_counts_def mean_def
                df_three_def tester0_def power2_eq_square)

section \<open>The claims\<close>

text \<open>
  Claim C1. For every dataset (with a first and a second variant label, \<open>v0\<close> and
  \<open>v1\<close>) whose distinct non-null metric values are a subset of {0, 1} -- the empty
  set and both singletons included -- \<open>analyze_test\<close> takes the binary branch
  whatever the sizes of the arms: the only library call it makes is the two-proportion
  Z-test, so the normality check (Shapiro-Wilk, and the sampler before it) is never
  invoked and the random generator is untouched; the outcome is the Z-test's error if
  that routine raises, and otherwise a verdict with \<open>metric_type = "binary"\<close> and
  \<open>test = "Proportion Z-Test"\<close>. The witness runs with a library whose Shapiro-Wilk
  routine always raises.
\<close>

theorem binary_metric_proportion_ztest:
  assumes "set (dropna (map metric df)) \<subseteq> {0, 1}"
    and "unique (map variant df) = v0 # v1 # vs"
  shows "snd (analyze_test self L df w)
           = w\<lparr>calls := calls w @ [ProportionsZtest [sum_list (arm df v1), sum_list (arm df v0)]
                                                    [length (arm df v1), length (arm df v0)]]\<rparr>
         \<and> (case proportions_ztest L [sum_list (arm df v1), sum_list (arm df v0)]
                                       [length (arm df v1), length (arm df v0)] of
               Inl e \<Rightarrow> fst (analyze_test self L df w) = Inl e
             | Inr (st, p) \<Rightarrow>
                 (\<exists>v. fst (analyze_test self L df w) = Inr v
                      \<and> metric_type v = ''binary'' \<and> test v = ''Proportion Z-Test''
                      \<and> statistic v = st \<and> test_result.pvalue v = p))"
  by (simp add: analyze_test_binary [OF assms(2) assms(1)] split: sum.splits prod.splits)

theorem binary_metric_proportion_ztest_witness:
  "set (dropna (map metric df_binary)) \<subseteq> {0, 1}
   \<and> unique (map variant df_binary) = [''A'', ''B'']
   \<and> snd (analyze_test tester0 lib_shapiro_raises df_binary world0)
       = \<lparr>rng = 0, calls = [ProportionsZtest [0, 1] [1, 1]]\<rparr>
   \<and> (\<exists>v. fst (analyze_test tester0 lib_shapiro_raises df_binary world0) = Inr v
          \<and> metric_type v = ''binary'' \<and> test v = ''Proportion Z-Test'')"
proof -
  have b: "set (dropna (map metric df_binary)) \<subseteq> {0, 1}"
    by (simp add: df_binary_def dropna_def)
  have u: "unique (map variant df_binary) = [''A'', ''B'']"
    by (simp add: df_binary_def)
  have a: "arm df_binary ''A'' = [1]" "arm df_binary ''B'' = [0]"
    by (simp_all add: df_binary_def arm_def dropna_def)
  show ?thesis
    using binary_metric_proportion_ztest [OF b u, of tester0 lib_shapiro_raises world0] b u
    by (auto simp add: a lib_shapiro_raises_def lib0_def world0_def)
qed

text \<open>
  Claim C2. For every dataset (with a first and a second variant label, \<open>v0\<close> and
  \<open>v1\<close>) whose distinct non-null metric values are not a subset of {0, 1},
  \<open>analyze_test\<close> runs the normality check on the control arm and then on the
  treatment arm. When the two checks return \<open>is_normal_control\<close> and
  \<open>is_normal_treatment\<close>: if both are true, the next and last library call is Welch's
  t-test (\<open>ttest_ind\<close> with \<open>equal_var=False\<close>) and a verdict it yields is tagged
  \<open>continuous_normal\<close>; if either is false, it is the Mann-Whitney U test and the tag
  is \<open>continuous_non_normal\<close>. In the witness the same dataset is run with two
  libraries that differ only in the Shapiro-Wilk p-value of the treatment arm, and the
  choice flips.
\<close>

theorem continuous_metric_dispatch:
  assumes "unique (map variant df) = v0 # v1 # vs"
    and "\<not> set (dropna (map metric df)) \<subseteq> {0, 1}"
    and "check_normality self L (arm df v0) w = (Inr is_normal_control, w1)"
    and "check_normality self L (arm df v1) w1 = (Inr is_normal_treatment, w2)"
  shows "(if is_normal_control \<and> is_normal_treatment then
            snd (analyze_test self L df w)
              = w2\<lparr>calls := calls w2 @ [TtestInd (arm df v1) (arm df v0) False]\<rparr>
            \<and> (case ttest_ind L (arm df v1) (arm df v0) False of
                  Inl e \<Rightarrow> fst (analyze_test self L df w) = Inl e
                | Inr (st, p) \<Rightarrow>
                    (\<exists>v. fst (analyze_test self L df w) = Inr v
                         \<and> test v = ''Two Sample T-Test''
                         \<and> metric_type v = ''continuous_normal''
                         \<and> statistic v = st \<and> test_result.pvalue v = p))
          else
            snd (analyze_test self L df w)
              = w2\<lparr>calls := calls w2 @ [MannWhitneyU (arm df v1) (arm df v0) ''two-sided'']\<rparr>
            \<and> (case mannwhitneyu L (arm df v1) (arm df v0) ''two-sided'' of
                  Inl e \<Rightarrow> fst (analyze_test self L df w) = Inl e
                | Inr (st, p) \<Rightarrow>
                    (\<exists>v. fst (analyze_test self L df w) = Inr v
                         \<and> test v = ''Mann-Whitney U''
                         \<and> metric_type v = ''continuous_non_normal''
                         \<and> statistic v = st \<and> test_result.pvalue v = p)))"
  by (simp add: analyze_test_continuous [OF assms] split: sum.splits prod.splits)

theorem continuous_metric_dispatch_witness:
  "unique (map variant df_continuous) = [''A'', ''B'']
   \<and> \<not> set (dropna (map metric df_continuous)) \<subseteq> {0, 1}
   \<and> snd (analyze_test tester0 lib0 df_continuous world0)
       = \<lparr>rng = 0, calls = [Shapiro [3 / 2, 4], Shapiro [5 / 2],
                            TtestInd [5 / 2] [3 / 2, 4] False]\<rparr>
   \<and> (\<exists>v. fst (analyze_test tester0 lib0 df_continuous world0) = Inr v
          \<and> test v = ''Two Sample T-Test'' \<and> metric_type v = ''continuous_normal'')
   \<and> snd (analyze_test tester0 lib_mixed df_continuous world0)
       = \<lparr>rng = 0, calls = [Shapiro [3 / 2, 4], Shapiro [5 / 2],
                            MannWhitneyU [5 / 2] [3 / 2, 4] ''two-sided'']\<rparr>
   \<and> (\<exists>v. fst (analyze_test tester0 lib_mixed df_continuous world0) = Inr v
          \<and> test v = ''Mann-Whitney U'' \<and> metric_type v = ''continuous_non_normal'')"
proof -
  have c0: "check_normality tester0 lib0 (arm df_continuous ''A'') world0
              = (Inr True, \<lparr>rng = 0, calls = [Shapiro [3 / 2, 4]]\<rparr>)"
    by (simp add: check_normality_small df_continuous_arms lib0_def tester0_def world0_def)
  have t0: "check_normality tester0 lib0 (arm df_continuous ''B'')
                \<lparr>rng = 0, calls = [Shapiro [3 / 2, 4]]\<rparr>
              = (Inr True, \<lparr>rng = 0, calls = [Shapiro [3 / 2, 4], Shapiro [5 / 2]]\<rparr>)"
    by (simp add: check_normality_small df_continuous_arms lib0_def tester0_def)
  have c1: "check_normality tester0 lib_mixed (arm df_continuous ''A'') world0
              = (Inr True, \<lparr>rng = 0, calls = [Shapiro [3 / 2, 4]]\<rparr>)"
    by (simp add: check_normality_small df_continuous_arms lib_mixed_def lib0_def
                  tester0_def world0_def)
  have t1: "check_normality tester0 lib_mixed (arm df_continuous ''B'')
                \<lparr>rng = 0, calls = [Shapiro [3 / 2, 4]]\<rparr>
              = (Inr False, \<lparr>rng = 0, calls = [Shapiro [3 / 2, 4], Shapiro [5 / 2]]\<rparr>)"
    by (simp add: check_normality_small df_continuous_arms lib_mixed_def lib0_def tester0_def)
  show ?thesis
    using continuous_metric_dispatch [OF df_continuous_variants df_continuous_not_binary c0 t0]
      continuous_metric_dispatch [OF df_continuous_variants df_continuous_not_binary c1 t1]
      df_continuous_variants df_continuous_not_binary
    by (auto simp add: df_continuous_arms lib_mixed_def lib0_def)
qed

text \<open>
  Claim C3. \<open>check_srm\<close> returns, for every dataset: as \<open>chi2\<close>, Pearson's statistic
  against an expected count per variant equal to the arithmetic mean of the observed
  per-variant counts (the sum over the distinct variants of the square of
  (observed - mean), divided by the mean);
  as \<open>pvalue\<close>, one minus the chi-square distribution function of that statistic at
  (number of distinct variants - 1) degrees of freedom; and \<open>srm_detected\<close> is true
  exactly when \<open>pvalue < alpha\<close>. The code sums over the counts sorted by
  \<open>value_counts\<close>, the claim over the variants; over the reals the two sums agree.
\<close>

theorem check_srm_pearson:
  "chi2 (check_srm self cdf df) = pearson_chi2 (map variant df)
   \<and> srm_result.pvalue (check_srm self cdf df)
       = 1 - cdf (pearson_chi2 (map variant df)) (int (card (variant ` set df)) - 1)
   \<and> srm_detected (check_srm self cdf df)
       = (srm_result.pvalue (check_srm self cdf df) < alpha self)"
  using pvalue_check_srm [of self cdf df] srm_detected_check_srm [of self cdf df]
  by (simp add: chi2_check_srm)

text \<open>
  Claim C4. \<open>check_srm\<close> is symmetric in the order of the variant labels: two datasets
  whose per-variant count vectors (in order of first appearance) are permutations of
  each other get the same \<open>chi2\<close>, \<open>pvalue\<close> and \<open>srm_detected\<close>. By
  \<open>label_counts_perm\<close> this covers every reordering of the rows, and by
  \<open>label_counts_relabel\<close> every renaming of the labels. The array of counts that the
  code computes on is the same in both datasets, so the equality does not rest on the
  order of a floating-point sum.
\<close>

theorem check_srm_order_symmetric:
  assumes "mset (label_counts (map variant df')) = mset (label_counts (map variant df))"
  shows "check_srm self cdf df' = check_srm self cdf df"
  using assms by (intro check_srm_cong value_counts_cong)

theorem check_srm_order_symmetric_witness:
  "label_counts (map variant df_ab) = [1, 2] \<and> label_counts (map variant df_ba) = [2, 1]
   \<and> check_srm tester0 (chi2_cdf lib0) df_ba = check_srm tester0 (chi2_cdf lib0) df_ab"
proof -
  have ab: "label_counts (map variant df_ab) = [1, 2]"
    by (simp add: label_counts_def df_ab_def)
  have ba: "label_counts (map variant df_ba) = [2, 1]"
    by (simp add: label_counts_def df_ba_def)
  have "mset (label_counts (map variant df_ba)) = mset (label_counts (map variant df_ab))"
    by (simp add: ab ba)
  then show ?thesis
    using check_srm_order_symmetric [of df_ba df_ab tester0 "chi2_cdf lib0"] ab ba by simp
qed

text \<open>
  Claim C5. For every dataset with fewer than two distinct variant labels,
  \<open>analyze_test\<close> fails with an error instead of returning a verdict: indexing the
  array of distinct labels at 0 (no label) or at 1 (one label) raises \<open>IndexError\<close>.
  No sampling or testing routine has been called by then and the random generator is
  untouched: the state is the initial one.
\<close>

theorem fewer_than_two_variants_index_error:
  assumes "card (variant ` set df) < 2"
  shows "analyze_test self L df w = (Inl IndexError, w)"
proof -
  have "length (unique (map variant df)) < 2"
    using assms by (simp add: length_unique)
  then show ?thesis by (rule analyze_test_few)
qed

theorem fewer_than_two_variants_index_error_witness:
  "card (variant ` set df_single) < 2
   \<and> analyze_test tester0 lib0 df_single world0 = (Inl IndexError, world0)
   \<and> card (variant ` set ([] :: string row list)) < 2
   \<and> analyze_test tester0 lib0 ([] :: string row list) world0 = (Inl IndexError, world0)"
proof -
  have one: "card (variant ` set df_single) < 2"
    by (simp add: df_single_def)
  have none: "card (variant ` set ([] :: string row list)) < 2"
    by simp
  show ?thesis
    using one none
      fewer_than_two_variants_index_error [OF one, of tester0 lib0 world0]
      fewer_than_two_variants_index_error [OF none, of tester0 lib0 world0]
    by simp
qed

text \<open>
  Claim C6, as stated, fails on the code: with one observation in each arm (fewer than
  two non-null metric observations) and a binary metric, \<open>analyze_test\<close> raises
  nothing and returns the verdict of the proportion Z-test called on sizes [1, 1]. The
  library \<open>lib0\<close> does not raise; neither does statsmodels' \<open>proportions_ztest\<close>
  on these arguments.
\<close>

theorem small_arms_error_counterexample:
  "length (arm df_binary ''A'') = 1 \<and> length (arm df_binary ''B'') = 1
   \<and> analyze_test tester0 lib0 df_binary world0
       = (Inr \<lparr>test = ''Proportion Z-Test'', statistic = 0, pvalue = 1, significant = False,
               metric_type = ''binary'',
               srm = \<lparr>chi2 = 0, pvalue = 1, srm_detected = False\<rparr>\<rparr>,
          \<lparr>rng = 0, calls = [ProportionsZtest [0, 1] [1, 1]]\<rparr>)"
proof -
  have u: "unique (map variant df_binary) = [''A'', ''B'']"
    by (simp add: df_binary_def)
  have b: "set (dropna (map metric df_binary)) \<subseteq> {0, 1}"
    by (simp add: df_binary_def dropna_def)
  have a: "arm df_binary ''A'' = [1]" "arm df_binary ''B'' = [0]"
    by (simp_all add: df_binary_def arm_def dropna_def)
  have s: "check_srm tester0 (chi2_cdf lib0) df_binary
             = \<lparr>chi2 = 0, pvalue = 1, srm_detected = False\<rparr>"
    by (simp add: check_srm_def Let_def value_counts_values_def label_counts_def mean_def
                  df_binary_def lib0_def tester0_def)
  have z: "\<And>s n. proportions_ztest lib0 s n = Inr (0, 1)"
    by (simp add: lib0_def)
  have al: "alpha tester0 = 5 / 100"
    by (simp add: tester0_def)
  show ?thesis
    by (simp add: analyze_test_binary [OF u b] a z s al world0_def)
qed

text \<open>
  Claim C6, amended. \<open>analyze_test\<close> has no check of the arm sizes. For every dataset
  with at least two distinct variant labels, arms of zero or one observation included,
  its outcome is fixed by the library calls it makes. With a binary metric it fails
  exactly when the Z-test called on the two arms raises, with that error, and otherwise
  returns a verdict carrying that call's statistic and p-value. With a continuous metric
  it fails exactly when the normality check of the control arm, or then that of the
  treatment arm, or then the dispatched test called on the two arms raises, with that
  error, and otherwise returns a verdict carrying that test's statistic and p-value. An
  error of a normality check is the error of its sampler call or of its Shapiro-Wilk
  call on the data it was given. In the witness there is one observation per arm and a
  library whose Shapiro-Wilk always raises: the binary dataset gets a verdict, the
  continuous one fails with that routine's error.
\<close>

theorem analyze_test_fails_only_by_library:
  assumes u: "unique (map variant df) = v0 # v1 # vs"
  shows "(if set (dropna (map metric df)) \<subseteq> {0, 1} then
            (case proportions_ztest L [sum_list (arm df v1), sum_list (arm df v0)]
                                      [length (arm df v1), length (arm df v0)] of
               Inl e \<Rightarrow> fst (analyze_test self L df w) = Inl e
             | Inr (st, p) \<Rightarrow>
                 (\<exists>v. fst (analyze_test self L df w) = Inr v
                      \<and> statistic v = st \<and> test_result.pvalue v = p))
          else
            (case check_normality self L (arm df v0) w of
               (Inl e, w1) \<Rightarrow> fst (analyze_test self L df w) = Inl e
             | (Inr nc, w1) \<Rightarrow>
                 (case check_normality self L (arm df v1) w1 of
                    (Inl e, w2) \<Rightarrow> fst (analyze_test self L df w) = Inl e
                  | (Inr nt, w2) \<Rightarrow>
                      (case (if nc \<and> nt then ttest_ind L (arm df v1) (arm df v0) False
                             else mannwhitneyu L (arm df v1) (arm df v0) ''two-sided'') of
                         Inl e \<Rightarrow> fst (analyze_test self L df w) = Inl e
                       | Inr (st, p) \<Rightarrow>
                           (\<exists>v. fst (analyze_test self L df w) = Inr v
                                \<and> statistic v = st \<and> test_result.pvalue v = p)))))
         \<and> (\<forall>data w0 e w1. check_normality self L data w0 = (Inl e, w1) \<longrightarrow>
               (if 5000 < length data then
                  (case random_choice L (rng w0) data 5000 False of
                     (Inl e', g) \<Rightarrow> e' = e
                   | (Inr sample, g) \<Rightarrow> shapiro L sample = Inl e)
                else shapiro L data = Inl e))"
proof (intro conjI allI impI)
  show "if set (dropna (map metric df)) \<subseteq> {0, 1} then
            (case proportions_ztest L [sum_list (arm df v1), sum_list (arm df v0)]
                                      [length (arm df v1), length (arm df v0)] of
               Inl e \<Rightarrow> fst (analyze_test self L df w) = Inl e
             | Inr (st, p) \<Rightarrow>
                 (\<exists>v. fst (analyze_test self L df w) = Inr v
                      \<and> statistic v = st \<and> test_result.pvalue v = p))
          else
            (case check_normality self L (arm df v0) w of
               (Inl e, w1) \<Rightarrow> fst (analyze_test self L df w) = Inl e
             | (Inr nc, w1) \<Rightarrow>
                 (case check_normality self L (arm df v1) w1 of
                    (Inl e, w2) \<Rightarrow> fst (analyze_test self L df w) = Inl e
                  | (Inr nt, w2) \<Rightarrow>
                      (case (if nc \<and> nt then ttest_ind L (arm df v1) (arm df v0) False
                             else mannwhitneyu L (arm df v1) (arm df v0) ''two-sided'') of
                         Inl e \<Rightarrow> fst (analyze_test self L df w) = Inl e
                       | Inr (st, p) \<Rightarrow>
                           (\<exists>v. fst (analyze_test self L df w) = Inr v
                                \<and> statistic v = st \<and> test_result.pvalue v = p))))"
    by (simp add: analyze_test_run [OF u] split: sum.splits prod.splits)
next
  fix data w0 e w1
  assume "check_normality self L data w0 = (Inl e, w1)"
  then show "if 5000 < length data then
               (case random_choice L (rng w0) data 5000 False of
                  (Inl e', g) \<Rightarrow> e' = e
                | (Inr sample, g) \<Rightarrow> shapiro L sample = Inl e)
             else shapiro L data = Inl e"
    by (rule check_normality_error)
qed

theorem analyze_test_fails_only_by_library_witness:
  "unique (map variant df_binary) = [''A'', ''B'']
   \<and> length (arm df_binary ''A'') = 1 \<and> length (arm df_binary ''B'') = 1
   \<and> (\<exists>v. fst (analyze_test tester0 lib_shapiro_raises df_binary world0) = Inr v
          \<and> statistic v = 0 \<and> test_result.pvalue v = 1)
   \<and> unique (map variant df_continuous) = [''A'', ''B'']
   \<and> fst (analyze_test tester0 lib_shapiro_raises df_continuous world0)
       = Inl (LibraryError ''shapiro'')
   \<and> shapiro lib_shapiro_raises (arm df_continuous ''A'') = Inl (LibraryError ''shapiro'')"
proof -
  have u: "unique (map variant df_binary) = [''A'', ''B'']"
    by (simp add: df_binary_def)
  have b: "set (dropna (map metric df_binary)) \<subseteq> {0, 1}"
    by (simp add: df_binary_def dropna_def)
  have a: "arm df_binary ''A'' = [1]" "arm df_binary ''B'' = [0]"
    by (simp_all add: df_binary_def arm_def dropna_def)
  have z: "\<And>s n. proportions_ztest lib_shapiro_raises s n = Inr (0, 1)"
    by (simp add: lib_shapiro_raises_def lib0_def)
  have c: "check_normality tester0 lib_shapiro_raises (arm df_continuous ''A'') world0
             = (Inl (LibraryError ''shapiro''), \<lparr>rng = 0, calls = [Shapiro [3 / 2, 4]]\<rparr>)"
    by (simp add: check_normality_small df_continuous_arms lib_shapiro_raises_def lib0_def
                  world0_def)
  have s: "shapiro lib_shapiro_raises (arm df_continuous ''A'') = Inl (LibraryError ''shapiro'')"
    by (simp add: lib_shapiro_raises_def lib0_def)
  show ?thesis
    using analyze_test_fails_only_by_library [OF u, of tester0 lib_shapiro_raises world0]
      analyze_test_fails_only_by_library [OF df_continuous_variants,
        of tester0 lib_shapiro_raises world0]
      u df_continuous_variants df_continuous_not_binary s
    by (simp add: b a z c)
qed

text \<open>
  Claim C7. Each of the three test methods takes (control, treatment) and passes the
  treatment arm first to its library routine: \<open>proportions_ztest\<close> gets the
  successes [treatment sum, control sum] and the sizes [treatment length, control
  length], \<open>ttest_ind\<close> (with \<open>equal_var=False\<close>) and \<open>mannwhitneyu\<close> (with
  \<open>alternative="two-sided"\<close>) get (treatment, control); the statistic and p-value
  reported are those the routine returns on these arguments. In the witness the
  statistic is the first argument's sum minus the second's, and comes out as treatment
  minus control.
\<close>

theorem tests_receive_treatment_first:
  "proportion_test self L control treatment w =
     (case proportions_ztest L [sum_list treatment, sum_list control]
                               [length treatment, length control] of
        Inl e \<Rightarrow> Inl e
      | Inr (st, p) \<Rightarrow> Inr \<lparr>test = ''Proportion Z-Test'', statistic = st, pvalue = p,
                            significant = p < alpha self\<rparr>,
      w\<lparr>calls := calls w @ [ProportionsZtest [sum_list treatment, sum_list control]
                                              [length treatment, length control]]\<rparr>)
   \<and> two_sample_ttest self L control treatment w =
     (case ttest_ind L treatment control False of
        Inl e \<Rightarrow> Inl e
      | Inr (st, p) \<Rightarrow> Inr \<lparr>test = ''Two Sample T-Test'', statistic = st, pvalue = p,
                            significant = p < alpha self\<rparr>,
      w\<lparr>calls := calls w @ [TtestInd treatment control False]\<rparr>)
   \<and> mann_whitney_u_test self L control treatment w =
     (case mannwhitneyu L treatment control ''two-sided'' of
        Inl e \<Rightarrow> Inl e
      | Inr (st, p) \<Rightarrow> Inr \<lparr>test = ''Mann-Whitney U'', statistic = st, pvalue = p,
                            significant = p < alpha self\<rparr>,
      w\<lparr>calls := calls w @ [MannWhitneyU treatment control ''two-sided'']\<rparr>)"
  by (simp only: proportion_test_run two_sample_ttest_run mann_whitney_u_test_run simp_thms)

theorem tests_receive_treatment_first_witness:
  "fst (proportion_test tester0 lib_diff [0, 0] [1, 1, 0] world0)
     = Inr \<lparr>test = ''Proportion Z-Test'', statistic = 2, pvalue = 1, significant = False\<rparr>
   \<and> fst (two_sample_ttest tester0 lib_diff [1] [3] world0)
     = Inr \<lparr>test = ''Two Sample T-Test'', statistic = 2, pvalue = 1, significant = False\<rparr>
   \<and> snd (mann_whitney_u_test tester0 lib_diff [1] [3] world0)
     = \<lparr>rng = 0, calls = [MannWhitneyU [3] [1] ''two-sided'']\<rparr>"
  using tests_receive_treatment_first [of tester0 lib_diff "[0, 0]" "[1, 1, 0]" world0]
    tests_receive_treatment_first [of tester0 lib_diff "[1]" "[3]" world0]
  by (simp add: lib_diff_def lib0_def tester0_def world0_def)

text \<open>
  Claim C8. \<open>_check_normality\<close> on a sample of at most 5000 observations calls
  Shapiro-Wilk on the sample as it is; on a larger sample it first calls
  \<open>np.random.choice(data, 5000, replace=False)\<close> (size 5000, without replacement,
  no weights: the uniform choice is the routine's own contract) and calls Shapiro-Wilk
  on what that returns. In both cases it returns true exactly when the Shapiro-Wilk
  p-value strictly exceeds \<open>alpha\<close>; an error of either routine is passed on.
\<close>

theorem check_normality_shapiro_downsample:
  "(length data \<le> 5000 \<longrightarrow>
      check_normality self L data w =
        (case shapiro L data of Inl e \<Rightarrow> Inl e | Inr (st, p) \<Rightarrow> Inr (alpha self < p),
         w\<lparr>calls := calls w @ [Shapiro data]\<rparr>))
   \<and> (5000 < length data \<longrightarrow>
      (case random_choice L (rng w) data 5000 False of
         (Inl e, g) \<Rightarrow>
           check_normality self L data w =
             (Inl e, w\<lparr>rng := g, calls := calls w @ [RandomChoice data 5000 False]\<rparr>)
       | (Inr sample, g) \<Rightarrow>
           check_normality self L data w =
             (case shapiro L sample of Inl e \<Rightarrow> Inl e | Inr (st, p) \<Rightarrow> Inr (alpha self < p),
              w\<lparr>rng := g, calls := calls w @ [RandomChoice data 5000 False, Shapiro sample]\<rparr>)))"
  by (auto simp: check_normality_small check_normality_large check_normality_large_raise
           split: prod.splits sum.splits)

theorem check_normality_shapiro_downsample_witness:
  "length [1, 2, 3 :: real] \<le> 5000
   \<and> check_normality tester0 lib0 [1, 2, 3] world0
       = (Inr True, \<lparr>rng = 0, calls = [Shapiro [1, 2, 3]]\<rparr>)
   \<and> check_normality tester0 lib_mixed [1, 2, 0] world0
       = (Inr False, \<lparr>rng = 0, calls = [Shapiro [1, 2, 0]]\<rparr>)
   \<and> 5000 < length (replicate 5001 (0 :: real))
   \<and> check_normality tester0 lib0 (replicate 5001 0) world0
       = (Inr True, \<lparr>rng = 1, calls = [RandomChoice (replicate 5001 0) 5000 False,
                                         Shapiro (replicate 5000 0)]\<rparr>)"
  using check_normality_shapiro_downsample [of "[1, 2, 3]" tester0 lib0 world0]
    check_normality_shapiro_downsample [of "[1, 2, 0]" tester0 lib_mixed world0]
    check_normality_shapiro_downsample [of "replicate 5001 0" tester0 lib0 world0]
  by (simp add: lib_mixed_def lib0_def tester0_def world0_def)

text \<open>
  Claim C9. For every in-contract input (two distinct variant labels), the verdict
  that \<open>analyze_test\<close> returns is a record with the fields \<open>test\<close>,
  \<open>statistic\<close>, \<open>pvalue\<close>, \<open>significant\<close>, \<open>metric_type\<close> and \<open>srm\<close>
  (the type \<open>verdict\<close>) whose \<open>srm\<close> field is the result of \<open>check_srm\<close> on the
  same dataset and whose tag is one of the three metric types. A verdict is returned in
  each of the three branches as soon as the library calls made on that run return: the
  Z-test on the two arms (binary); the two normality checks and then the t-test
  (both normal) or the Mann-Whitney test (otherwise) on the two arms. Nothing is asked
  of routines or arguments the run does not reach: the binary witness runs with a
  library whose Shapiro-Wilk always raises.
\<close>

theorem verdict_embeds_check_srm:
  assumes u: "unique (map variant df) = [v0, v1]"
  shows "(\<forall>v w'. analyze_test self L df w = (Inr v, w') \<longrightarrow>
            srm v = check_srm self (chi2_cdf L) df
            \<and> (metric_type v = ''binary'' \<or> metric_type v = ''continuous_normal''
                 \<or> metric_type v = ''continuous_non_normal''))
         \<and> (set (dropna (map metric df)) \<subseteq> {0, 1}
              \<and> proportions_ztest L [sum_list (arm df v1), sum_list (arm df v0)]
                                      [length (arm df v1), length (arm df v0)] = Inr (st, p)
            \<longrightarrow> (\<exists>v w'. analyze_test self L df w = (Inr v, w')
                        \<and> metric_type v = ''binary''
                        \<and> srm v = check_srm self (chi2_cdf L) df))
         \<and> (\<not> set (dropna (map metric df)) \<subseteq> {0, 1}
              \<and> check_normality self L (arm df v0) w = (Inr nc, w1)
              \<and> check_normality self L (arm df v1) w1 = (Inr nt, w2)
              \<and> (if nc \<and> nt then ttest_ind L (arm df v1) (arm df v0) False
                  else mannwhitneyu L (arm df v1) (arm df v0) ''two-sided'') = Inr (st, p)
            \<longrightarrow> (\<exists>v w'. analyze_test self L df w = (Inr v, w')
                        \<and> metric_type v = (if nc \<and> nt then ''continuous_normal''
                                            else ''continuous_non_normal'')
                        \<and> srm v = check_srm self (chi2_cdf L) df))"
proof (intro conjI allI impI)
  fix v w'
  assume run: "analyze_test self L df w = (Inr v, w')"
  show "srm v = check_srm self (chi2_cdf L) df"
    using run by (rule analyze_test_srm)
  show "metric_type v = ''binary'' \<or> metric_type v = ''continuous_normal''
        \<or> metric_type v = ''continuous_non_normal''"
    using run by (rule analyze_test_tag)
next
  assume "set (dropna (map metric df)) \<subseteq> {0, 1}
          \<and> proportions_ztest L [sum_list (arm df v1), sum_list (arm df v0)]
                                  [length (arm df v1), length (arm df v0)] = Inr (st, p)"
  then show "\<exists>v w'. analyze_test self L df w = (Inr v, w') \<and> metric_type v = ''binary''
                     \<and> srm v = check_srm self (chi2_cdf L) df"
    by (simp add: analyze_test_run [OF u])
next
  assume "\<not> set (dropna (map metric df)) \<subseteq> {0, 1}
          \<and> check_normality self L (arm df v0) w = (Inr nc, w1)
          \<and> check_normality self L (arm df v1) w1 = (Inr nt, w2)
          \<and> (if nc \<and> nt then ttest_ind L (arm df v1) (arm df v0) False
              else mannwhitneyu L (arm df v1) (arm df v0) ''two-sided'') = Inr (st, p)"
  then show "\<exists>v w'. analyze_test self L df w = (Inr v, w')
                     \<and> metric_type v = (if nc \<and> nt then ''continuous_normal''
                                         else ''continuous_non_normal'')
                     \<and> srm v = check_srm self (chi2_cdf L) df"
    by (auto simp add: analyze_test_run [OF u] split: if_splits)
qed

theorem verdict_embeds_check_srm_witness:
  "unique (map variant df_binary) = [''A'', ''B'']
   \<and> set (dropna (map metric df_binary)) \<subseteq> {0, 1}
   \<and> (\<exists>v w'. analyze_test tester0 lib_shapiro_raises df_binary world0 = (Inr v, w')
         \<and> metric_type v = ''binary''
         \<and> srm v = \<lparr>chi2 = 0, pvalue = 1, srm_detected = False\<rparr>)
   \<and> unique (map variant df_continuous) = [''A'', ''B'']
   \<and> \<not> set (dropna (map metric df_continuous)) \<subseteq> {0, 1}
   \<and> (\<exists>v w'. analyze_test tester0 lib0 df_continuous world0 = (Inr v, w')
         \<and> metric_type v = ''continuous_normal''
         \<and> srm v = \<lparr>chi2 = 0, pvalue = 1, srm_detected = False\<rparr>)
   \<and> (\<exists>v w'. analyze_test tester0 lib_mixed df_continuous world0 = (Inr v, w')
         \<and> metric_type v = ''continuous_non_normal''
         \<and> srm v = \<lparr>chi2 = 0, pvalue = 1, srm_detected = False\<rparr>)"
proof -
  have u: "unique (map variant df_binary) = [''A'', ''B'']"
    by (simp add: df_binary_def)
  have b: "set (dropna (map metric df_binary)) \<subseteq> {0, 1}"
    by (simp add: df_binary_def dropna_def)
  have z: "proportions_ztest lib_shapiro_raises
             [sum_list (arm df_binary ''B''), sum_list (arm df_binary ''A'')]
             [length (arm df_binary ''B''), length (arm df_binary ''A'')] = Inr (0, 1)"
    by (simp add: lib_shapiro_raises_def lib0_def)
  have sb: "check_srm tester0 (chi2_cdf lib_shapiro_raises) df_binary
              = \<lparr>chi2 = 0, pvalue = 1, srm_detected = False\<rparr>"
    using check_srm_df_binary by (simp add: lib_shapiro_raises_def)
  have s0: "check_srm tester0 (chi2_cdf lib0) df_continuous
              = \<lparr>chi2 = 0, pvalue = 1, srm_detected = False\<rparr>"
    by (simp add: check_srm_df_continuous lib0_def)
  have s1: "check_srm tester0 (chi2_cdf lib_mixed) df_continuous
              = \<lparr>chi2 = 0, pvalue = 1, srm_detected = False\<rparr>"
    by (simp add: check_srm_df_continuous lib_mixed_def lib0_def)
  have c0: "check_normality tester0 lib0 (arm df_continuous ''A'') world0
              = (Inr True, \<lparr>rng = 0, calls = [Shapiro [3 / 2, 4]]\<rparr>)"
    by (simp add: check_normality_small df_continuous_arms lib0_def tester0_def world0_def)
  have t0: "check_normality tester0 lib0 (arm df_continuous ''B'')
                \<lparr>rng = 0, calls = [Shapiro [3 / 2, 4]]\<rparr>
              = (Inr True, \<lparr>rng = 0, calls = [Shapiro [3 / 2, 4], Shapiro [5 / 2]]\<rparr>)"
    by (simp add: check_normality_small df_continuous_arms lib0_def tester0_def)
  have r0: "(if True \<and> True then ttest_ind lib0 (arm df_continuous ''B'') (arm df_continuous ''A'') False
             else mannwhitneyu lib0 (arm df_continuous ''B'') (arm df_continuous ''A'') ''two-sided'')
              = Inr (0, 1)"
    by (simp add: lib0_def)
  have c1: "check_normality tester0 lib_mixed (arm df_continuous ''A'') world0
              = (Inr True, \<lparr>rng = 0, calls = [Shapiro [3 / 2, 4]]\<rparr>)"
    by (simp add: check_normality_small df_continuous_arms lib_mixed_def lib0_def
                  tester0_def world0_def)
  have t1: "check_normality tester0 lib_mixed (arm df_continuous ''B'')
                \<lparr>rng = 0, calls = [Shapiro [3 / 2, 4]]\<rparr>
              = (Inr False, \<lparr>rng = 0, calls = [Shapiro [3 / 2, 4], Shapiro [5 / 2]]\<rparr>)"
    by (simp add: check_normality_small df_continuous_arms lib_mixed_def lib0_def tester0_def)
  have r1: "(if True \<and> False then ttest_ind lib_mixed (arm df_continuous ''B'') (arm df_continuous ''A'') False
             else mannwhitneyu lib_mixed (arm df_continuous ''B'') (arm df_continuous ''A'') ''two-sided'')
              = Inr (0, 1)"
    by (simp add: lib_mixed_def lib0_def)
  note bin = verdict_embeds_check_srm [OF u, where self = tester0 and L = lib_shapiro_raises
      and w = world0 and st = 0 and p = 1]
  note nrm = verdict_embeds_check_srm [OF df_continuous_variants, where self = tester0
      and L = lib0 and w = world0 and nc = True and nt = True and st = 0 and p = 1
      and ?w1.0 = "\<lparr>rng = 0, calls = [Shapiro [3 / 2, 4]]\<rparr>"
      and ?w2.0 = "\<lparr>rng = 0, calls = [Shapiro [3 / 2, 4], Shapiro [5 / 2]]\<rparr>"]
  note non = verdict_embeds_check_srm [OF df_continuous_variants, where self = tester0
      and L = lib_mixed and w = world0 and nc = True and nt = False and st = 0 and p = 1
      and ?w1.0 = "\<lparr>rng = 0, calls = [Shapiro [3 / 2, 4]]\<rparr>"
      and ?w2.0 = "\<lparr>rng = 0, calls = [Shapiro [3 / 2, 4], Shapiro [5 / 2]]\<rparr>"]
  have x: "\<exists>v w'. analyze_test tester0 lib_shapiro_raises df_binary world0 = (Inr v, w')
         \<and> metric_type v = ''binary''
         \<and> srm v = \<lparr>chi2 = 0, pvalue = 1, srm_detected = False\<rparr>"
    using bin b z by (simp add: sb)
  have y: "\<exists>v w'. analyze_test tester0 lib0 df_continuous world0 = (Inr v, w')
         \<and> metric_type v = ''continuous_normal''
         \<and> srm v = \<lparr>chi2 = 0, pvalue = 1, srm_detected = False\<rparr>"
    using nrm df_continuous_not_binary c0 t0 r0 by (simp add: s0)
  have z': "\<exists>v w'. analyze_test tester0 lib_mixed df_continuous world0 = (Inr v, w')
         \<and> metric_type v = ''continuous_non_normal''
         \<and> srm v = \<lparr>chi2 = 0, pvalue = 1, srm_detected = False\<rparr>"
    using non df_continuous_not_binary c1 t1 r1 by (simp add: s1)
  show ?thesis
    using x y z' u b df_continuous_variants df_continuous_not_binary by simp
qed

text \<open>
  Claim C10. For every dataset with more than two distinct variant labels,
  \<open>analyze_test\<close> does not fail on its own account: it fails exactly when a library
  call it makes raises, and returns a verdict otherwise. The calls are made on the arms
  of the first two labels in order of first appearance (treatment \<open>v1\<close> first, control
  \<open>v0\<close> second) and the statistic and p-value of the verdict are theirs. The \<open>srm\<close>
  field is \<open>check_srm\<close> of the whole dataset: Pearson's statistic summed over all
  distinct variants, with a number of degrees of freedom equal to the number of all
  distinct variants minus one. The metric is binary exactly when the non-null metric
  values of all rows, those of the ignored variants included, lie in {0, 1}. In the
  witness the arms of \<open>A\<close> and \<open>B\<close> hold only 0 and 1, and a row of \<open>C\<close> makes the
  metric continuous.
\<close>

theorem more_than_two_variants_first_two_arms:
  assumes u: "unique (map variant df) = v0 # v1 # v2 # vs"
  shows "chi2 (check_srm self (chi2_cdf L) df) = pearson_chi2 (map variant df)
     \<and> srm_result.pvalue (check_srm self (chi2_cdf L) df)
         = 1 - chi2_cdf L (pearson_chi2 (map variant df)) (int (length (v0 # v1 # v2 # vs)) - 1)
     \<and> (\<forall>v w'. analyze_test self L df w = (Inr v, w') \<longrightarrow>
           srm v = check_srm self (chi2_cdf L) df
           \<and> (metric_type v = ''binary'') = (set (dropna (map metric df)) \<subseteq> {0, 1}))
     \<and> (if set (dropna (map metric df)) \<subseteq> {0, 1} then
           (case proportions_ztest L [sum_list (arm df v1), sum_list (arm df v0)]
                                     [length (arm df v1), length (arm df v0)] of
              Inl e \<Rightarrow> fst (analyze_test self L df w) = Inl e
            | Inr (st, p) \<Rightarrow>
                (\<exists>v w'. analyze_test self L df w = (Inr v, w')
                   \<and> test v = ''Proportion Z-Test'' \<and> metric_type v = ''binary''
                   \<and> statistic v = st \<and> test_result.pvalue v = p
                   \<and> last (calls w')
                       = ProportionsZtest [sum_list (arm df v1), sum_list (arm df v0)]
                                          [length (arm df v1), length (arm df v0)]))
         else
           (case check_normality self L (arm df v0) w of
              (Inl e, w1) \<Rightarrow> fst (analyze_test self L df w) = Inl e
            | (Inr nc, w1) \<Rightarrow>
                (case check_normality self L (arm df v1) w1 of
                   (Inl e, w2) \<Rightarrow> fst (analyze_test self L df w) = Inl e
                 | (Inr nt, w2) \<Rightarrow>
                     (if nc \<and> nt then
                        (case ttest_ind L (arm df v1) (arm df v0) False of
                           Inl e \<Rightarrow> fst (analyze_test self L df w) = Inl e
                         | Inr (st, p) \<Rightarrow>
                             (\<exists>v w'. analyze_test self L df w = (Inr v, w')
                                \<and> test v = ''Two Sample T-Test''
                                \<and> metric_type v = ''continuous_normal''
                                \<and> statistic v = st \<and> test_result.pvalue v = p
                                \<and> last (calls w') = TtestInd (arm df v1) (arm df v0) False))
                      else
                        (case mannwhitneyu L (arm df v1) (arm df v0) ''two-sided'' of
                           Inl e \<Rightarrow> fst (analyze_test self L df w) = Inl e
                         | Inr (st, p) \<Rightarrow>
                             (\<exists>v w'. analyze_test self L df w = (Inr v, w')
                                \<and> test v = ''Mann-Whitney U''
                                \<and> metric_type v = ''continuous_non_normal''
                                \<and> statistic v = st \<and> test_result.pvalue v = p
                                \<and> last (calls w')
                                    = MannWhitneyU (arm df v1) (arm df v0) ''two-sided''))))))"
proof (intro conjI allI impI)
  show "chi2 (check_srm self (chi2_cdf L) df) = pearson_chi2 (map variant df)"
    by (rule chi2_check_srm)
next
  have "card (variant ` set df) = length (unique (map variant df))"
    by (simp add: length_unique)
  then have k: "int (card (variant ` set df)) = int (length (v0 # v1 # v2 # vs))"
    by (simp only: u)
  show "srm_result.pvalue (check_srm self (chi2_cdf L) df)
          = 1 - chi2_cdf L (pearson_chi2 (map variant df)) (int (length (v0 # v1 # v2 # vs)) - 1)"
    unfolding k [symmetric] chi2_check_srm [of self "chi2_cdf L" df, symmetric]
    by (rule pvalue_check_srm)
next
  fix v w'
  assume run: "analyze_test self L df w = (Inr v, w')"
  show "srm v = check_srm self (chi2_cdf L) df"
    using run by (rule analyze_test_srm)
  show "(metric_type v = ''binary'') = (set (dropna (map metric df)) \<subseteq> {0, 1})"
    using run
    by (auto simp: analyze_test_run [OF u] split: if_splits sum.splits prod.splits)
next
  show "if set (dropna (map metric df)) \<subseteq> {0, 1} then
           (case proportions_ztest L [sum_list (arm df v1), sum_list (arm df v0)]
                                     [length (arm df v1), length (arm df v0)] of
              Inl e \<Rightarrow> fst (analyze_test self L df w) = Inl e
            | Inr (st, p) \<Rightarrow>
                (\<exists>v w'. analyze_test self L df w = (Inr v, w')
                   \<and> test v = ''Proportion Z-Test'' \<and> metric_type v = ''binary''
                   \<and> statistic v = st \<and> test_result.pvalue v = p
                   \<and> last (calls w')
                       = ProportionsZtest [sum_list (arm df v1), sum_list (arm df v0)]
                                          [length (arm df v1), length (arm df v0)]))
         else
           (case check_normality self L (arm df v0) w of
              (Inl e, w1) \<Rightarrow> fst (analyze_test self L df w) = Inl e
            | (Inr nc, w1) \<Rightarrow>
                (case check_normality self L (arm df v1) w1 of
                   (Inl e, w2) \<Rightarrow> fst (analyze_test self L df w) = Inl e
                 | (Inr nt, w2) \<Rightarrow>
                     (if nc \<and> nt then
                        (case ttest_ind L (arm df v1) (arm df v0) False of
                           Inl e \<Rightarrow> fst (analyze_test self L df w) = Inl e
                         | Inr (st, p) \<Rightarrow>
                             (\<exists>v w'. analyze_test self L df w = (Inr v, w')
                                \<and> test v = ''Two Sample T-Test''
                                \<and> metric_type v = ''continuous_normal''
                                \<and> statistic v = st \<and> test_result.pvalue v = p
                                \<and> last (calls w') = TtestInd (arm df v1) (arm df v0) False))
                      else
                        (case mannwhitneyu L (arm df v1) (arm df v0) ''two-sided'' of
                           Inl e \<Rightarrow> fst (analyze_test self L df w) = Inl e
                         | Inr (st, p) \<Rightarrow>
                             (\<exists>v w'. analyze_test self L df w = (Inr v, w')
                                \<and> test v = ''Mann-Whitney U''
                                \<and> metric_type v = ''continuous_non_normal''
                                \<and> statistic v = st \<and> test_result.pvalue v = p
                                \<and> last (calls w')
                                    = MannWhitneyU (arm df v1) (arm df v0) ''two-sided'')))))"
    by (simp add: analyze_test_run [OF u] split: sum.splits prod.splits)
qed

theorem more_than_two_variants_first_two_arms_witness:
  "unique (map variant df_three) = [''A'', ''B'', ''C'']
   \<and> set (arm df_three ''A'') \<subseteq> {0, 1} \<and> set (arm df_three ''B'') \<subseteq> {0, 1}
   \<and> \<not> set (dropna (map metric df_three)) \<subseteq> {0, 1}
   \<and> srm_result.pvalue (check_srm tester0 (chi2_cdf lib0) df_three)
       = 1 - chi2_cdf lib0 (1 / 2) 2
   \<and> (\<exists>v w'. analyze_test tester0 lib_mixed df_three world0 = (Inr v, w')
         \<and> test v = ''Mann-Whitney U'' \<and> metric_type v = ''continuous_non_normal''
         \<and> srm v = \<lparr>chi2 = 1 / 2, pvalue = 1, srm_detected = False\<rparr>
         \<and> last (calls w') = MannWhitneyU [0, 1] [1] ''two-sided'')"
proof -
  have u: "unique (map variant df_three) = [''A'', ''B'', ''C'']"
    by (simp add: df_three_def)
  have a: "arm df_three ''A'' = [1]" "arm df_three ''B'' = [0, 1]"
    by (simp_all add: df_three_def arm_def dropna_def)
  have nb: "\<not> set (dropna (map metric df_three)) \<subseteq> {0, 1}"
    by (simp add: df_three_def dropna_def)
  have s: "check_srm tester0 (chi2_cdf lib_mixed) df_three
             = \<lparr>chi2 = 1 / 2, pvalue = 1, srm_detected = False\<rparr>"
    by (simp add: check_srm_df_three lib_mixed_def lib0_def)
  have c0: "check_normality tester0 lib_mixed [1] world0
              = (Inr False, \<lparr>rng = 0, calls = [Shapiro [1]]\<rparr>)"
    by (simp add: check_normality_small lib_mixed_def lib0_def tester0_def world0_def)
  have t0: "check_normality tester0 lib_mixed [0, 1] \<lparr>rng = 0, calls = [Shapiro [1]]\<rparr>
              = (Inr False, \<lparr>rng = 0, calls = [Shapiro [1], Shapiro [0, 1]]\<rparr>)"
    by (simp add: check_normality_small lib_mixed_def lib0_def tester0_def)
  have m: "\<And>x y. mannwhitneyu lib_mixed x y ''two-sided'' = Inr (0, 1)"
    by (simp add: lib_mixed_def lib0_def)
  have x: "\<exists>v w'. analyze_test tester0 lib_mixed df_three world0 = (Inr v, w')
         \<and> test v = ''Mann-Whitney U'' \<and> metric_type v = ''continuous_non_normal''
         \<and> srm v = \<lparr>chi2 = 1 / 2, pvalue = 1, srm_detected = False\<rparr>
         \<and> last (calls w') = MannWhitneyU [0, 1] [1] ''two-sided''"
    using more_than_two_variants_first_two_arms [OF u, of tester0 lib_mixed world0] nb
    by (simp add: a c0 t0 m s) blast
  have p: "srm_result.pvalue (check_srm tester0 (chi2_cdf lib0) df_three)
             = 1 - chi2_cdf lib0 (1 / 2) 2"
    using more_than_two_variants_first_two_arms [OF u, of tester0 lib0 world0]
    by (simp add: check_srm_df_three)
  show ?thesis
    using x p u nb by (simp add: a)
qed

end
